theory Spec2Isabelle
  imports Complex_Main "HOL-Library.AList" "HOL-Library.Char_ord" "HOL-Library.List_Lexorder"
begin

section \<open>Conventions of the embedding\<close>

text \<open>
  The embedding follows the Python modules \<^verbatim>\<open>app/strategy.py\<close>, \<^verbatim>\<open>app/costs.py\<close>,
  \<^verbatim>\<open>core/utils.py\<close> and \<^verbatim>\<open>app/paper.py\<close>.

  \<^item> A Python \<^verbatim>\<open>float\<close> is read as a real number, so arithmetic is exact here and
    a comparison that the source decides by a rounding error can come out differently; a
    price that is missing (the \<^verbatim>\<open>np.nan\<close> default of \<^verbatim>\<open>Series.get\<close>) is \<open>None\<close>.
  \<^item> A \<^verbatim>\<open>pd.Timestamp\<close> of the daily index is its day number (days since
    1970-01-01, a Thursday); the strings \<^verbatim>\<open>"YYYY-MM-DD"\<close> stored in the account are
    identified with these day numbers.
  \<^item> A Python \<^verbatim>\<open>dict\<close> is an association list in insertion order; assignment
    \<^verbatim>\<open>d[k] = v\<close> is \<open>AList.update k v d\<close> (in place for a present key, appended
    otherwise), and \<^verbatim>\<open>d.get(k, default)\<close> is \<open>dict_get d k default\<close>.
  \<^item> Every \<^verbatim>\<open>raise\<close> is a value \<open>Inl e\<close> of the result.
\<close>

type_synonym symbol = string
type_synonym date = int

definition dict_get :: "('k \<times> 'v) list \<Rightarrow> 'k \<Rightarrow> 'v \<Rightarrow> 'v" where
  "dict_get d k dflt = (case map_of d k of None \<Rightarrow> dflt | Some v \<Rightarrow> v)"

datatype error =
    RuntimeError_no_rebalance_dates
  | RuntimeError_account_up_to_date
  | IndexError
  | KeyError

section \<open>\<^verbatim>\<open>app/strategy.py\<close>\<close>

datatype RiskState = NORMAL | DE_RISK | CIRCUIT_COOLDOWN

record RiskGate =
  derisk_drawdown :: real
  circuit_drawdown :: real
  cooldown_weeks :: int
  state :: RiskState
  cooldown_left :: int

definition next_state :: "RiskGate \<Rightarrow> real \<Rightarrow> RiskState" where
  "next_state g drawdown =
     (if state g = CIRCUIT_COOLDOWN \<and> cooldown_left g > 0 then CIRCUIT_COOLDOWN
      else if drawdown \<ge> circuit_drawdown g then CIRCUIT_COOLDOWN
      else if drawdown \<ge> derisk_drawdown g then DE_RISK
      else NORMAL)"

text \<open>
  \<^verbatim>\<open>on_rebalance\<close> mutates the gate and returns \<^verbatim>\<open>(new_state, changed)\<close>; the model
  returns the updated gate together with that pair.
\<close>

definition on_rebalance :: "RiskGate \<Rightarrow> real \<Rightarrow> RiskGate \<times> RiskState \<times> bool" where
  "on_rebalance g drawdown =
     (let prev = state g;
          new = next_state g drawdown
      in if new = CIRCUIT_COOLDOWN \<and> prev \<noteq> CIRCUIT_COOLDOWN then
           (g\<lparr>cooldown_left := max (cooldown_weeks g - 1) 0, state := CIRCUIT_COOLDOWN\<rparr>,
            CIRCUIT_COOLDOWN, True)
         else if prev = CIRCUIT_COOLDOWN \<and> cooldown_left g > 0 then
           (g\<lparr>cooldown_left := cooldown_left g - 1, state := CIRCUIT_COOLDOWN\<rparr>,
            CIRCUIT_COOLDOWN, False)
         else (g\<lparr>state := new\<rparr>, new, new \<noteq> prev))"

text \<open>Successive rebalance events on one gate: each call sees the gate the previous one left.\<close>

fun on_rebalance_calls :: "RiskGate \<Rightarrow> real list \<Rightarrow> (RiskGate \<times> RiskState \<times> bool) list" where
  "on_rebalance_calls g [] = []"
| "on_rebalance_calls g (d # ds) =
     (let r = on_rebalance g d in r # on_rebalance_calls (fst r) ds)"

text \<open>
  The transition rules as the specification words them (rules 1 to 4 of its section on the
  risk gate), for comparison with \<open>on_rebalance\<close>.
\<close>

definition spec_candidate :: "RiskGate \<Rightarrow> real \<Rightarrow> RiskState" where
  "spec_candidate g d =
     (if d \<ge> circuit_drawdown g then CIRCUIT_COOLDOWN
      else if d \<ge> derisk_drawdown g then DE_RISK
      else NORMAL)"

definition spec_transition :: "RiskGate \<Rightarrow> real \<Rightarrow> RiskGate \<times> RiskState \<times> bool" where
  "spec_transition g d =
     (if state g = CIRCUIT_COOLDOWN \<and> cooldown_left g > 0 then
        (g\<lparr>cooldown_left := cooldown_left g - 1\<rparr>, CIRCUIT_COOLDOWN, False)
      else if spec_candidate g d = CIRCUIT_COOLDOWN \<and> state g \<noteq> CIRCUIT_COOLDOWN then
        (g\<lparr>state := CIRCUIT_COOLDOWN, cooldown_left := max (cooldown_weeks g - 1) 0\<rparr>,
         CIRCUIT_COOLDOWN, True)
      else
        (g\<lparr>state := spec_candidate g d\<rparr>, spec_candidate g d, spec_candidate g d \<noteq> state g))"

text \<open>
  The scores are a \<^verbatim>\<open>pd.Series\<close> indexed by symbol, already ordered by
  \<^verbatim>\<open>compute_score\<close>; a score that is not finite (\<^verbatim>\<open>-inf\<close>, \<^verbatim>\<open>nan\<close>) is \<open>None\<close>.
\<close>

type_synonym scores = "(symbol \<times> real option) list"

definition pick_best_equity :: "scores \<Rightarrow> symbol \<Rightarrow> symbol" where
  "pick_best_equity scores fallback =
     (case scores of
        [] \<Rightarrow> fallback
      | (best, sc) # _ \<Rightarrow> (case sc of None \<Rightarrow> fallback | Some _ \<Rightarrow> best))"

definition target_weights ::
    "RiskState \<Rightarrow> symbol \<Rightarrow> symbol \<Rightarrow> real \<Rightarrow> real \<Rightarrow> (symbol \<times> real) list" where
  "target_weights st equity_symbol defensive_symbol normal_equity_weight derisk_equity_weight =
     (if st = CIRCUIT_COOLDOWN then [(defensive_symbol, 1)]
      else if st = DE_RISK then
        (let ew = derisk_equity_weight
         in AList.update defensive_symbol (1 - ew) (AList.update equity_symbol ew []))
      else [(equity_symbol, normal_equity_weight)])"

section \<open>\<^verbatim>\<open>app/costs.py\<close>\<close>

record CostModel =
  commission_rate :: real
  min_commission :: real
  stamp_tax_rate :: real
  slippage_bps :: real

text \<open>
  A trade intent \<^verbatim>\<open>{"symbol": .., "trade_value": .., "sell_value": ..}\<close>; a key that is
  absent reads as \<^verbatim>\<open>0.0\<close> in the source, so such a dict is the record with \<open>0\<close> there.
\<close>

record trade =
  trade_symbol :: symbol
  trade_value :: real
  sell_value :: real

fun estimate_loop :: "CostModel \<Rightarrow> trade list \<Rightarrow> real \<Rightarrow> real" where
  "estimate_loop cm [] total_cost = total_cost"
| "estimate_loop cm (t # ts) total_cost =
     (if trade_value t \<le> 0 then estimate_loop cm ts total_cost
      else
        (let commission = max (trade_value t * commission_rate cm) (min_commission cm);
             stamp_tax = sell_value t * stamp_tax_rate cm;
             slippage = trade_value t * (slippage_bps cm / 10000)
         in estimate_loop cm ts (total_cost + (commission + stamp_tax + slippage))))"

definition estimate_for_rebalance :: "CostModel \<Rightarrow> trade list \<Rightarrow> real" where
  "estimate_for_rebalance cm trades = estimate_loop cm trades 0"

text \<open>The per-trade cost as the specification words it.\<close>

definition spec_trade_cost :: "CostModel \<Rightarrow> trade \<Rightarrow> real" where
  "spec_trade_cost cm t =
     (if trade_value t > 0 then
        max (trade_value t * commission_rate cm) (min_commission cm)
          + sell_value t * stamp_tax_rate cm
          + trade_value t * slippage_bps cm / 10000
      else 0)"

section \<open>\<^verbatim>\<open>core/utils.py\<close>\<close>

text \<open>
  \<^verbatim>\<open>dates.to_period("W-FRI")\<close>: the week that ends on a Friday, numbered from the week
  that holds day 0 (Thursday 1970-01-01; day 1 is a Friday, day 2 opens the next week).
  \<^verbatim>\<open>PeriodIndex.shift(1)\<close> adds one period to every element (it returns
  \<^verbatim>\<open>self + periods\<close>; it does not move positions).
\<close>

definition to_period_W_FRI :: "date \<Rightarrow> int" where
  "to_period_W_FRI d = (d + 5) div 7"

definition period_shift :: "int \<Rightarrow> int list \<Rightarrow> int list" where
  "period_shift n periods = map (\<lambda>p. p + n) periods"

definition first_day_after_week_end :: "date list \<Rightarrow> bool list" where
  "first_day_after_week_end dates =
     (if length dates = 0 then []
      else
        (let periods = map to_period_W_FRI dates;
             prev = period_shift 1 periods;
             flag = map (\<lambda>(p, q). p \<noteq> q) (zip periods prev)
         in flag[0 := False]))"

text \<open>
  Index lookups of the two drivers. \<^verbatim>\<open>idx.get_loc(d)\<close> is the position of \<open>d\<close> in a
  unique index and raises \<^verbatim>\<open>KeyError\<close> for an absent label; \<^verbatim>\<open>idx[i]\<close> follows Python:
  a negative \<open>i\<close> counts from the end, and an index out of range raises.
\<close>

fun get_loc :: "date list \<Rightarrow> date \<Rightarrow> error + nat" where
  "get_loc [] d = Inl KeyError"
| "get_loc (x # xs) d =
     (if x = d then Inr 0
      else (case get_loc xs d of Inl e \<Rightarrow> Inl e | Inr i \<Rightarrow> Inr (Suc i)))"

definition py_index :: "'a list \<Rightarrow> int \<Rightarrow> error + 'a" where
  "py_index xs i =
     (if 0 \<le> i \<and> i < int (length xs) then Inr (xs ! nat i)
      else if - int (length xs) \<le> i \<and> i < 0 then Inr (xs ! nat (int (length xs) + i))
      else Inl IndexError)"

text \<open>\<^verbatim>\<open>idx[rebalance_flag.values]\<close>: the dates selected by the boolean mask.\<close>

definition mask_select :: "'a list \<Rightarrow> bool list \<Rightarrow> 'a list" where
  "mask_select xs flags = map fst (filter snd (zip xs flags))"

section \<open>\<^verbatim>\<open>app/paper.py\<close>\<close>

text \<open>
  A row of the price table (\<^verbatim>\<open>prices.loc[d]\<close>) maps the symbols that are columns to
  their close; the table is the list of its rows in index order, and \<^verbatim>\<open>idx\<close> is the
  list of its dates.
\<close>

type_synonym price_row = "(symbol \<times> real) list"
type_synonym price_table = "(date \<times> price_row) list"

record PaperAccount =
  as_of :: "date option"
  cash :: real
  positions :: "(symbol \<times> int) list"
  equity_peak :: real
  gate :: "RiskState \<times> int"
  history :: "(date \<times> real) list"

definition PaperAccount_new :: "real \<Rightarrow> RiskState \<times> int \<Rightarrow> PaperAccount" where
  "PaperAccount_new capital gate_state =
     \<lparr>as_of = None, cash = capital, positions = [], equity_peak = capital,
      gate = gate_state, history = []\<rparr>"

fun account_value_loop :: "price_row \<Rightarrow> (symbol \<times> int) list \<Rightarrow> real \<Rightarrow> real" where
  "account_value_loop price_row [] v = v"
| "account_value_loop price_row ((symb, sh) # rest) v =
     (case map_of price_row symb of
        None \<Rightarrow> account_value_loop price_row rest v
      | Some px \<Rightarrow> account_value_loop price_row rest (v + real_of_int sh * px))"

definition account_value :: "PaperAccount \<Rightarrow> price_row \<Rightarrow> real" where
  "account_value account price_row =
     account_value_loop price_row (positions account) (cash account)"

text \<open>
  The arguments of \<^verbatim>\<open>run_paper_once\<close>. \<^verbatim>\<open>market_dir\<close> is represented by the table
  that \<^verbatim>\<open>_load_prices\<close> returns, \<^verbatim>\<open>account_path\<close> by the account stored there (if
  any), and the three score parameters by the function \<open>compute_score\<close> from the signal
  date to the ordered scores.
\<close>

record paper_args =
  equity_etfs :: "symbol list"
  defensive_etf :: symbol
  initial_capital :: real
  no_trade_band :: real
  cfg_derisk_drawdown :: real
  cfg_circuit_drawdown :: real
  cfg_cooldown_weeks :: int
  alloc_normal_equity_weight :: real
  alloc_derisk_equity_weight :: real
  cost_model :: CostModel

text \<open>\<^verbatim>\<open>list(dict.fromkeys(xs))\<close>: the first occurrence of every element, in order.\<close>

definition dict_fromkeys :: "'a list \<Rightarrow> 'a list" where
  "dict_fromkeys xs = rev (remdups (rev xs))"

definition loc :: "price_table \<Rightarrow> date \<Rightarrow> error + price_row" where
  "loc prices d = (case map_of prices d of None \<Rightarrow> Inl KeyError | Some row \<Rightarrow> Inr row)"

subsection \<open>Lines 103 to 112: the next rebalance date and its signal date\<close>

definition next_rebalance :: "date list \<Rightarrow> date list \<Rightarrow> PaperAccount \<Rightarrow> error + date \<times> date" where
  "next_rebalance idx rebalance_dates account =
     (let cand = (case as_of account of
                    Some last_dt \<Rightarrow> filter (\<lambda>d. d > last_dt) rebalance_dates
                  | None \<Rightarrow> rebalance_dates)
      in case cand of
           [] \<Rightarrow> Inl RuntimeError_account_up_to_date
         | trade_dt # _ \<Rightarrow>
             (case get_loc idx trade_dt of
                Inl e \<Rightarrow> Inl e
              | Inr i \<Rightarrow>
                  (case py_index idx (int i - 1) of
                     Inl e \<Rightarrow> Inl e
                   | Inr signal_dt \<Rightarrow> Inr (trade_dt, signal_dt))))"

subsection \<open>Lines 117 to 128: backfilling the daily valuations\<close>

fun backfill_loop ::
    "price_table \<Rightarrow> date list \<Rightarrow> date list \<Rightarrow> PaperAccount \<Rightarrow> error + PaperAccount" where
  "backfill_loop prices existing_dates [] account = Inr account"
| "backfill_loop prices existing_dates (d # ds) account =
     (if d \<in> set existing_dates then backfill_loop prices existing_dates ds account
      else
        (case loc prices d of
           Inl e \<Rightarrow> Inl e
         | Inr row \<Rightarrow>
             (let v = account_value account row
              in backfill_loop prices existing_dates ds
                   (account\<lparr>history := history account @ [(d, v)],
                            equity_peak := max (equity_peak account) v\<rparr>))))"

definition backfill_history :: "price_table \<Rightarrow> date \<Rightarrow> PaperAccount \<Rightarrow> error + PaperAccount" where
  "backfill_history prices signal_dt account =
     (case as_of account of
        None \<Rightarrow> Inr account
      | Some last_as_of \<Rightarrow>
          (let fill_dates = filter (\<lambda>d. d > last_as_of \<and> d \<le> signal_dt) (map fst prices);
               existing_dates = map fst (history account)
           in backfill_loop prices existing_dates fill_dates account))"

subsection \<open>Lines 130 to 160: gate, drawdown, winner and target weights\<close>

definition decide_weights ::
    "paper_args \<Rightarrow> price_table \<Rightarrow> (date \<Rightarrow> scores) \<Rightarrow> date \<Rightarrow> PaperAccount
      \<Rightarrow> error + PaperAccount \<times> RiskGate \<times> (symbol \<times> real) list" where
  "decide_weights args prices compute_score signal_dt account =
     (let g = \<lparr>derisk_drawdown = cfg_derisk_drawdown args,
               circuit_drawdown = cfg_circuit_drawdown args,
               cooldown_weeks = cfg_cooldown_weeks args,
               state = fst (gate account), cooldown_left = snd (gate account)\<rparr>
      in case loc prices signal_dt of
           Inl e \<Rightarrow> Inl e
         | Inr row \<Rightarrow>
             (let signal_value = account_value account row;
                  account1 = account\<lparr>equity_peak := max (equity_peak account) signal_value\<rparr>;
                  drawdown = (if equity_peak account1 > 0
                              then 1 - signal_value / equity_peak account1 else 0);
                  r = on_rebalance g drawdown;
                  scores = compute_score signal_dt
              in case equity_etfs args of
                   [] \<Rightarrow> Inl IndexError
                 | fallback # _ \<Rightarrow>
                     (let winner = pick_best_equity scores fallback;
                          tw = target_weights (fst (snd r)) winner (defensive_etf args)
                                 (alloc_normal_equity_weight args)
                                 (alloc_derisk_equity_weight args)
                      in Inr (account1, fst r, tw))))"

subsection \<open>Lines 162 to 191: pre-trade value, no-trade band and share targets\<close>

definition pre_trade_value :: "real \<Rightarrow> (symbol \<times> int) list \<Rightarrow> price_row \<Rightarrow> real" where
  "pre_trade_value pre_cash pre_positions px_trade =
     account_value_loop px_trade pre_positions pre_cash"

fun current_weights_loop ::
    "price_row \<Rightarrow> (symbol \<times> int) list \<Rightarrow> real \<Rightarrow> symbol list \<Rightarrow> (symbol \<times> real) list
      \<Rightarrow> error + (symbol \<times> real) list" where
  "current_weights_loop px_trade pre_positions pre_value [] cws = Inr cws"
| "current_weights_loop px_trade pre_positions pre_value (s # rest) cws =
     (let sh = dict_get pre_positions s 0
      in if sh \<le> 0 then current_weights_loop px_trade pre_positions pre_value rest cws
         else if pre_value > 0 then
           (case map_of px_trade s of
              None \<Rightarrow> Inl KeyError
            | Some px \<Rightarrow>
                current_weights_loop px_trade pre_positions pre_value rest
                  (AList.update s (real_of_int sh * px / pre_value) cws))
         else current_weights_loop px_trade pre_positions pre_value rest (AList.update s 0 cws))"

definition apply_no_trade_band ::
    "real \<Rightarrow> (symbol \<times> real) list \<Rightarrow> (symbol \<times> real) list \<Rightarrow> (symbol \<times> real) list" where
  "apply_no_trade_band band current_weights tw =
     map (\<lambda>(s, w). let cw = dict_get current_weights s 0
                   in if \<bar>w - cw\<bar> < band then (s, cw) else (s, w)) tw"

fun target_shares_loop ::
    "price_row \<Rightarrow> real \<Rightarrow> (symbol \<times> real) list \<Rightarrow> (symbol \<times> int) list
      \<Rightarrow> error + (symbol \<times> int) list" where
  "target_shares_loop px_trade pre_value [] target_shares = Inr target_shares"
| "target_shares_loop px_trade pre_value ((s, w) # rest) target_shares =
     (let target_value = pre_value * w
      in case map_of px_trade s of
           None \<Rightarrow> Inl KeyError
         | Some px \<Rightarrow>
             target_shares_loop px_trade pre_value rest
               (AList.update s (if px > 0 then \<lfloor>target_value / px\<rfloor> else 0) target_shares))"

fun zero_missing_targets :: "symbol list \<Rightarrow> (symbol \<times> int) list \<Rightarrow> (symbol \<times> int) list" where
  "zero_missing_targets [] target_shares = target_shares"
| "zero_missing_targets (s # rest) target_shares =
     zero_missing_targets rest
       (if map_of target_shares s = None then AList.update s 0 target_shares
        else target_shares)"

text \<open>
  The block as a whole; it hands on \<^verbatim>\<open>pre_value\<close>, \<^verbatim>\<open>current_weights\<close>, the weights
  \<^verbatim>\<open>tw\<close> after the band and \<^verbatim>\<open>target_shares\<close>, which later lines read.
\<close>

definition size_targets ::
    "paper_args \<Rightarrow> price_row \<Rightarrow> real \<Rightarrow> (symbol \<times> int) list \<Rightarrow> (symbol \<times> real) list
      \<Rightarrow> error + real \<times> (symbol \<times> real) list \<times> (symbol \<times> real) list \<times> (symbol \<times> int) list"
    where
  "size_targets args px_trade pre_cash pre_positions tw =
     (let symbols = dict_fromkeys (equity_etfs args @ [defensive_etf args]);
          pre_value = pre_trade_value pre_cash pre_positions px_trade
      in case current_weights_loop px_trade pre_positions pre_value symbols
                (map (\<lambda>s. (s, 0)) symbols) of
           Inl e \<Rightarrow> Inl e
         | Inr current_weights \<Rightarrow>
             (let tw_band = apply_no_trade_band (no_trade_band args) current_weights tw
              in case target_shares_loop px_trade pre_value tw_band [] of
                   Inl e \<Rightarrow> Inl e
                 | Inr target_shares \<Rightarrow>
                     Inr (pre_value, current_weights, tw_band,
                          zero_missing_targets (map fst pre_positions) target_shares)))"

subsection \<open>Lines 193 to 251: sells, then buys\<close>

datatype action = SELL | BUY | HOLD

text \<open>A row of \<^verbatim>\<open>trades\<close>: \<^verbatim>\<open>(s, action, cur, tgt, delta, px, cost)\<close>.\<close>

type_synonym trade_row = "symbol \<times> action \<times> int \<times> int \<times> int \<times> real \<times> real"

text \<open>
  The variables the two loops mutate: the local \<^verbatim>\<open>cash\<close>, \<^verbatim>\<open>account.positions\<close>,
  \<^verbatim>\<open>cost_by_symbol\<close> and the list \<^verbatim>\<open>trades\<close>.
\<close>

record exec_state =
  ex_cash :: real
  ex_positions :: "(symbol \<times> int) list"
  cost_by_symbol :: "(symbol \<times> real) list"
  trades :: "trade_row list"

definition est_cost_for :: "CostModel \<Rightarrow> symbol \<Rightarrow> real \<Rightarrow> real \<Rightarrow> real" where
  "est_cost_for cm symb dv sv =
     estimate_for_rebalance cm [\<lparr>trade_symbol = symb, trade_value = dv, sell_value = sv\<rparr>]"

text \<open>The body of the \<^verbatim>\<open>SELL\<close> loop for one item \<^verbatim>\<open>(s, tgt)\<close> of \<^verbatim>\<open>target_shares\<close>.\<close>

definition sell_symbol ::
    "CostModel \<Rightarrow> price_row \<Rightarrow> (symbol \<times> int) list \<Rightarrow> symbol \<Rightarrow> int \<Rightarrow> exec_state
      \<Rightarrow> exec_state" where
  "sell_symbol cm px_trade pre_positions s tgt st =
     (let cur = dict_get (ex_positions st) s (dict_get pre_positions s 0);
          delta = tgt - cur
      in if delta \<ge> 0 then st
         else
           (case map_of px_trade s of
              None \<Rightarrow> st
            | Some px \<Rightarrow>
                if px \<le> 0 then st
                else
                  (let sell_shares = - delta;
                       sell_val = real_of_int sell_shares * px;
                       cost = est_cost_for cm s sell_val sell_val
                   in st\<lparr>ex_cash := ex_cash st + (sell_val - cost),
                         ex_positions := AList.update s (cur - sell_shares) (ex_positions st),
                         cost_by_symbol :=
                           AList.update s (dict_get (cost_by_symbol st) s 0 + cost)
                             (cost_by_symbol st),
                         trades := trades st @ [(s, SELL, cur, tgt, delta, px, cost)]\<rparr>)))"

fun sell_loop ::
    "CostModel \<Rightarrow> price_row \<Rightarrow> (symbol \<times> int) list \<Rightarrow> (symbol \<times> int) list \<Rightarrow> exec_state
      \<Rightarrow> exec_state" where
  "sell_loop cm px_trade pre_positions [] st = st"
| "sell_loop cm px_trade pre_positions ((s, tgt) # rest) st =
     sell_loop cm px_trade pre_positions rest (sell_symbol cm px_trade pre_positions s tgt st)"

text \<open>
  The \<^verbatim>\<open>while buy > 0\<close> loop of one symbol; it returns the value of \<^verbatim>\<open>buy\<close> at its exit
  (the shares bought after a \<^verbatim>\<open>break\<close>, \<open>0\<close> when no count was affordable) and the state.
\<close>

function buy_while ::
    "CostModel \<Rightarrow> symbol \<Rightarrow> real \<Rightarrow> int \<Rightarrow> int \<Rightarrow> int \<Rightarrow> exec_state \<Rightarrow> int \<times> exec_state" where
  "buy_while cm s px cur tgt buy st =
     (if buy > 0 then
        (let buy_value = real_of_int buy * px;
             cost = est_cost_for cm s buy_value 0;
             need = buy_value + cost
         in if ex_cash st \<ge> need - 1 / 1000000 then
              (buy,
               st\<lparr>ex_cash := ex_cash st - need,
                  ex_positions := AList.update s (cur + buy) (ex_positions st),
                  cost_by_symbol :=
                    AList.update s (dict_get (cost_by_symbol st) s 0 + cost) (cost_by_symbol st),
                  trades := trades st @ [(s, BUY, cur, tgt, buy, px, cost)]\<rparr>)
            else buy_while cm s px cur tgt (buy - 1) st)
      else (buy, st))"
  by pat_completeness auto
termination
  by (relation "measure (\<lambda>(cm, s, px, cur, tgt, buy, st). nat buy)") auto

declare buy_while.simps [simp del]

definition buy_symbol ::
    "CostModel \<Rightarrow> price_row \<Rightarrow> (symbol \<times> int) list \<Rightarrow> (symbol \<times> int) list \<Rightarrow> symbol
      \<Rightarrow> exec_state \<Rightarrow> error + exec_state" where
  "buy_symbol cm px_trade pre_positions target_shares s st =
     (case map_of target_shares s of
        None \<Rightarrow> Inl KeyError
      | Some tgt \<Rightarrow>
          (let cur = dict_get (ex_positions st) s (dict_get pre_positions s 0);
               delta = tgt - cur
           in if delta \<le> 0 then Inr st
              else
                (case map_of px_trade s of
                   None \<Rightarrow> Inr st
                 | Some px \<Rightarrow>
                     if px \<le> 0 then Inr st
                     else
                       (let r = buy_while cm s px cur tgt delta st
                        in if fst r = 0 then
                             (let tgt2 = dict_get (ex_positions (snd r)) s cur
                              in Inr ((snd r)\<lparr>trades :=
                                        trades (snd r) @ [(s, HOLD, cur, tgt2, 0, px, 0)]\<rparr>))
                           else Inr (snd r)))))"

fun buy_loop ::
    "CostModel \<Rightarrow> price_row \<Rightarrow> (symbol \<times> int) list \<Rightarrow> (symbol \<times> int) list \<Rightarrow> symbol list
      \<Rightarrow> exec_state \<Rightarrow> error + exec_state" where
  "buy_loop cm px_trade pre_positions target_shares [] st = Inr st"
| "buy_loop cm px_trade pre_positions target_shares (s # rest) st =
     (case buy_symbol cm px_trade pre_positions target_shares s st of
        Inl e \<Rightarrow> Inl e
      | Inr st1 \<Rightarrow> buy_loop cm px_trade pre_positions target_shares rest st1)"

definition buy_order :: "symbol \<Rightarrow> (symbol \<times> int) list \<Rightarrow> symbol list" where
  "buy_order defensive target_shares =
     (let buy_syms = map fst target_shares
      in if defensive \<in> set buy_syms then remove1 defensive buy_syms @ [defensive]
         else buy_syms)"

definition execute_trades ::
    "CostModel \<Rightarrow> price_row \<Rightarrow> (symbol \<times> int) list \<Rightarrow> symbol \<Rightarrow> (symbol \<times> int) list
      \<Rightarrow> exec_state \<Rightarrow> error + exec_state" where
  "execute_trades cm px_trade pre_positions defensive target_shares st =
     buy_loop cm px_trade pre_positions target_shares (buy_order defensive target_shares)
       (sell_loop cm px_trade pre_positions target_shares st)"

subsection \<open>\<^verbatim>\<open>run_paper_once\<close>\<close>

text \<open>
  Lines 264 to 295: the blotter. One row per symbol of
  \<^verbatim>\<open>sorted(set([*symbols, *pre_positions.keys(), *target_shares.keys()]))\<close>; the row is
  computed from the positions before the advance, the positions of the account after the
  clean-up of line 254, the share targets, the weights and \<^verbatim>\<open>cost_by_symbol\<close>. The list
  \<^verbatim>\<open>trades\<close> of the two loops is not read here.
\<close>

record blotter_row =
  row_trade_date :: date
  row_signal_date :: date
  row_symbol :: symbol
  row_action :: action
  row_current_weight :: real
  row_target_weight :: real
  row_target_shares :: int
  row_delta_shares :: int
  row_reference_price :: "real option"
  row_estimated_cost :: real
  row_state :: RiskState

definition blotter_rows ::
    "date \<Rightarrow> date \<Rightarrow> price_row \<Rightarrow> symbol list \<Rightarrow> (symbol \<times> int) list \<Rightarrow> (symbol \<times> int) list
      \<Rightarrow> (symbol \<times> int) list \<Rightarrow> (symbol \<times> real) list \<Rightarrow> (symbol \<times> real) list
      \<Rightarrow> (symbol \<times> real) list \<Rightarrow> RiskState \<Rightarrow> blotter_row list" where
  "blotter_rows trade_dt signal_dt px_trade symbols pre_positions account_positions
       target_shares current_weights tw cost_by_sym gate_state =
     (let union_syms = sort (remdups (symbols @ map fst pre_positions @ map fst target_shares))
      in map (\<lambda>s.
           (let cur_sh = dict_get pre_positions s 0;
                tgt_sh = dict_get account_positions s (dict_get target_shares s cur_sh);
                px = map_of px_trade s;
                cur_w = dict_get current_weights s 0;
                tgt_w = dict_get tw s 0;
                delta = tgt_sh - cur_sh
            in \<lparr>row_trade_date = trade_dt, row_signal_date = signal_dt, row_symbol = s,
                 row_action = (if delta = 0 then HOLD else if delta > 0 then BUY else SELL),
                 row_current_weight = cur_w, row_target_weight = tgt_w,
                 row_target_shares = tgt_sh, row_delta_shares = delta,
                 row_reference_price = px,
                 row_estimated_cost = dict_get cost_by_sym s 0,
                 row_state = gate_state\<rparr>)) union_syms)"

text \<open>
  What a completed advance produces: \<open>res_account\<close> is the account written by
  \<^verbatim>\<open>account.save\<close>, \<open>res_blotter\<close> the rows written to the blotter file and returned.
  (The equity curve that is returned as well is the saved history ordered by date and is
  not modelled.) \<open>local_trades\<close> is the final value of the local list \<^verbatim>\<open>trades\<close>; the
  function never reads, returns or saves that list, and the model keeps it only so that
  it can be compared with the blotter.
\<close>

record paper_result =
  res_account :: PaperAccount
  res_blotter :: "blotter_row list"
  local_trades :: "trade_row list"

definition load_account :: "paper_args \<Rightarrow> PaperAccount option \<Rightarrow> PaperAccount" where
  "load_account args stored =
     (case stored of
        Some account \<Rightarrow> account
      | None \<Rightarrow> PaperAccount_new (initial_capital args) (NORMAL, 0))"

text \<open>Lines 253 to 261: cleaning zero positions and stamping the account.\<close>

definition settle_account ::
    "PaperAccount \<Rightarrow> RiskGate \<Rightarrow> date \<Rightarrow> price_row \<Rightarrow> exec_state \<Rightarrow> PaperAccount" where
  "settle_account account g trade_dt px_trade st =
     (let account1 = account\<lparr>positions := filter (\<lambda>(k, v). v \<noteq> 0) (ex_positions st),
                             cash := ex_cash st\<rparr>;
          post_value = account_value account1 px_trade
      in account1\<lparr>as_of := Some trade_dt,
                  gate := (state g, cooldown_left g),
                  history := history account1 @ [(trade_dt, post_value)],
                  equity_peak := max (equity_peak account1) post_value\<rparr>)"

text \<open>The body of \<^verbatim>\<open>run_paper_once\<close> up to (not including) \<^verbatim>\<open>account.save\<close>.\<close>

definition paper_advance ::
    "paper_args \<Rightarrow> price_table \<Rightarrow> (date \<Rightarrow> scores) \<Rightarrow> PaperAccount option
      \<Rightarrow> error + paper_result" where
  "paper_advance args prices compute_score stored =
     (let idx = map fst prices;
          rebalance_dates = mask_select idx (first_day_after_week_end idx)
      in if length rebalance_dates = 0 then Inl RuntimeError_no_rebalance_dates
         else
           (let account = load_account args stored
            in case next_rebalance idx rebalance_dates account of
                 Inl e \<Rightarrow> Inl e
               | Inr (trade_dt, signal_dt) \<Rightarrow>
                   (let pre_positions = positions account;
                        pre_cash = cash account
                    in case backfill_history prices signal_dt account of
                         Inl e \<Rightarrow> Inl e
                       | Inr account1 \<Rightarrow>
                           (case decide_weights args prices compute_score signal_dt account1 of
                              Inl e \<Rightarrow> Inl e
                            | Inr (account2, g, tw) \<Rightarrow>
                                (case loc prices trade_dt of
                                   Inl e \<Rightarrow> Inl e
                                 | Inr px_trade \<Rightarrow>
                                     (case size_targets args px_trade pre_cash pre_positions tw of
                                        Inl e \<Rightarrow> Inl e
                                      | Inr (pre_value, current_weights, tw_band, target_shares) \<Rightarrow>
                                          (case execute_trades (cost_model args) px_trade
                                                  pre_positions (defensive_etf args) target_shares
                                                  \<lparr>ex_cash = pre_cash,
                                                   ex_positions = positions account2,
                                                   cost_by_symbol = [], trades = []\<rparr> of
                                             Inl e \<Rightarrow> Inl e
                                           | Inr st \<Rightarrow>
                                               (let saved =
                                                      settle_account account2 g trade_dt px_trade st
                                                in Inr \<lparr>res_account = saved,
                                                        res_blotter =
                                                          blotter_rows trade_dt signal_dt px_trade
                                                            (dict_fromkeys
                                                               (equity_etfs args @ [defensive_etf args]))
                                                            pre_positions (positions saved)
                                                            target_shares current_weights tw_band
                                                            (cost_by_symbol st) (state g),
                                                        local_trades = trades st\<rparr>))))))))"

text \<open>
  \<^verbatim>\<open>run_paper_once\<close> with the account file as explicit state: the result (an exception
  or what the advance produced) and the account stored afterwards. The file is written
  only by \<^verbatim>\<open>account.save\<close> at the end of a completed advance.
\<close>

definition run_paper_once ::
    "paper_args \<Rightarrow> price_table \<Rightarrow> (date \<Rightarrow> scores) \<Rightarrow> PaperAccount option
      \<Rightarrow> (error + paper_result) \<times> PaperAccount option" where
  "run_paper_once args prices compute_score stored =
     (case paper_advance args prices compute_score stored of
        Inl e \<Rightarrow> (Inl e, stored)
      | Inr r \<Rightarrow> (Inr r, Some (res_account r)))"

text \<open>
  \<^verbatim>\<open>_task_run_paper\<close> of \<^verbatim>\<open>backend/main.py\<close>, the caller of \<^verbatim>\<open>run_paper_once\<close> in the
  web task runner: a \<^verbatim>\<open>RuntimeError\<close> whose message says that the account is up to date
  becomes the output \<^verbatim>\<open>{"message": "no update needed"}\<close> of a task that returns
  normally; every other exception is raised again.
\<close>

datatype task_outputs = Outputs_no_update_needed | Outputs_artifacts paper_result

definition task_run_paper ::
    "paper_args \<Rightarrow> price_table \<Rightarrow> (date \<Rightarrow> scores) \<Rightarrow> PaperAccount option
      \<Rightarrow> (error + task_outputs) \<times> PaperAccount option" where
  "task_run_paper args prices compute_score stored =
     (case run_paper_once args prices compute_score stored of
        (Inl e, stored') \<Rightarrow>
          if e = RuntimeError_account_up_to_date then (Inr Outputs_no_update_needed, stored')
          else (Inl e, stored')
      | (Inr r, stored') \<Rightarrow> (Inr (Outputs_artifacts r), stored'))"

text \<open>Successive invocations of the driver on one account file, each with its own price table.\<close>

fun run_paper_many ::
    "paper_args \<Rightarrow> (price_table \<times> (date \<Rightarrow> scores)) list \<Rightarrow> PaperAccount option
      \<Rightarrow> PaperAccount option" where
  "run_paper_many args [] stored = stored"
| "run_paper_many args ((prices, compute_score) # rest) stored =
     run_paper_many args rest (snd (run_paper_once args prices compute_score stored))"

section \<open>The risk gate\<close>

lemma spec_candidate_next_state:
  "\<not> (state g = CIRCUIT_COOLDOWN \<and> cooldown_left g > 0) \<Longrightarrow>
     next_state g d = spec_candidate g d"
  by (auto simp add: next_state_def spec_candidate_def)

text \<open>
  Claim C2. For every gate state, cooldown counter and drawdown, \<open>on_rebalance\<close> is the
  specification's ordered transition: during a running cooldown the gate stays in
  \<open>CIRCUIT_COOLDOWN\<close>, the counter drops by exactly one and no change is reported;
  otherwise the candidate regime comes from the two thresholds, a fresh trip sets the
  counter to \<open>max (cooldown_weeks - 1) 0\<close> and reports a change, and in every other case
  the candidate is adopted and a change is reported exactly when it differs from the
  state at entry.
\<close>

theorem on_rebalance_refines_spec:
  "on_rebalance g d = spec_transition g d"
proof (cases "state g = CIRCUIT_COOLDOWN \<and> cooldown_left g > 0")
  case True
  then have "next_state g d = CIRCUIT_COOLDOWN"
    by (simp add: next_state_def)
  with True show ?thesis
    by (simp add: on_rebalance_def spec_transition_def)
next
  case False
  then have cand: "next_state g d = spec_candidate g d"
    by (rule spec_candidate_next_state)
  show ?thesis
  proof (cases "spec_candidate g d = CIRCUIT_COOLDOWN \<and> state g \<noteq> CIRCUIT_COOLDOWN")
    case True
    with cand show ?thesis
      by (simp add: on_rebalance_def spec_transition_def)
  next
    case no_trip: False
    with False cand show ?thesis
      by (auto simp add: on_rebalance_def spec_transition_def Let_def)
  qed
qed

lemma on_rebalance_deep_drawdown:
  assumes "state g = CIRCUIT_COOLDOWN" and "cooldown_left g = 0"
    and "circuit_drawdown g \<le> d"
  shows "on_rebalance g d = (g, CIRCUIT_COOLDOWN, False)"
  using assms by (simp add: on_rebalance_def next_state_def)

text \<open>
  Claim C3. A gate in \<open>CIRCUIT_COOLDOWN\<close> whose counter is \<open>0\<close> is left exactly as it
  is (state \<open>CIRCUIT_COOLDOWN\<close>, counter still \<open>0\<close>, no change reported) by a call
  whose drawdown is at or above \<open>circuit_drawdown\<close>, and so by every call of a run of
  such calls: the counter is never re-armed while the drawdown stays that deep.
\<close>

theorem cooldown_not_rearmed:
  assumes "state g = CIRCUIT_COOLDOWN" and "cooldown_left g = 0"
    and "\<forall>d \<in> set ds. circuit_drawdown g \<le> d"
  shows "on_rebalance_calls g ds = replicate (length ds) (g, CIRCUIT_COOLDOWN, False)"
  using assms
proof (induction ds)
  case Nil
  show ?case by simp
next
  case (Cons d ds)
  from Cons.prems have "on_rebalance g d = (g, CIRCUIT_COOLDOWN, False)"
    by (simp add: on_rebalance_deep_drawdown)
  moreover from Cons have
    "on_rebalance_calls g ds = replicate (length ds) (g, CIRCUIT_COOLDOWN, False)"
    by simp
  ultimately show ?case by (simp add: Let_def)
qed

theorem cooldown_not_rearmed_witness:
  "on_rebalance_calls
     \<lparr>derisk_drawdown = 1/10, circuit_drawdown = 1/5, cooldown_weeks = 4,
      state = CIRCUIT_COOLDOWN, cooldown_left = 0\<rparr> [11/50, 3/10]
   = replicate (Suc (Suc 0))
       (\<lparr>derisk_drawdown = 1/10, circuit_drawdown = 1/5, cooldown_weeks = 4,
         state = CIRCUIT_COOLDOWN, cooldown_left = 0\<rparr>, CIRCUIT_COOLDOWN, False)"
  using cooldown_not_rearmed
    [of "\<lparr>derisk_drawdown = 1/10, circuit_drawdown = 1/5, cooldown_weeks = 4,
          state = CIRCUIT_COOLDOWN, cooldown_left = 0\<rparr>" "[11/50, 3/10]"]
  by simp

section \<open>The weight policy\<close>

text \<open>
  Claim C5, as stated, fails: the weights are passed through as configured, so a
  configured weight outside \<open>[0, 1]\<close> is returned as it is.
\<close>

theorem target_weights_range_counterexample:
  "(''A'', 3/2) \<in> set (target_weights NORMAL ''A'' ''D'' (3/2) (1/2)) \<and> \<not> (3/2 \<le> (1::real))"
  by (simp add: target_weights_def)

text \<open>
  Claim C5, amended. For configured weights \<open>normal_weight\<close> and \<open>derisk_weight\<close> in
  \<open>[0, 1]\<close>, every returned weight is in \<open>[0, 1]\<close>; in \<open>CIRCUIT_COOLDOWN\<close> the result is
  exactly \<open>{defensive: 1.0}\<close>, in \<open>DE_RISK\<close> it is the dict
  \<open>{winner: derisk_weight, defensive: 1 - derisk_weight}\<close> and in \<open>NORMAL\<close> it is
  \<open>{winner: normal_weight}\<close> (these three for any weights).
\<close>

theorem target_weights_policy:
  assumes "0 \<le> nw" and "nw \<le> 1" and "0 \<le> dw" and "dw \<le> 1"
  shows "(\<forall>(s, w) \<in> set (target_weights st e d nw dw). 0 \<le> w \<and> w \<le> 1)
    \<and> target_weights CIRCUIT_COOLDOWN e d nw dw = [(d, 1)]
    \<and> map_of (target_weights DE_RISK e d nw dw) = [e \<mapsto> dw, d \<mapsto> 1 - dw]
    \<and> distinct (map fst (target_weights DE_RISK e d nw dw))
    \<and> target_weights NORMAL e d nw dw = [(e, nw)]"
  using assms by (cases st) (auto simp add: target_weights_def)

theorem target_weights_policy_witness:
  "target_weights DE_RISK ''A'' ''D'' (9/10) (1/2) = [(''A'', 1/2), (''D'', 1/2)]
    \<and> (0::real) \<le> 1/2 \<and> (1/2::real) \<le> 1
    \<and> target_weights CIRCUIT_COOLDOWN ''A'' ''D'' (9/10) (1/2) = [(''D'', 1)]
    \<and> target_weights NORMAL ''A'' ''D'' (9/10) (1/2) = [(''A'', 9/10)]"
  using target_weights_policy [of "9/10" "1/2" DE_RISK "''A''" "''D''"]
  by (simp add: target_weights_def Let_def)

section \<open>The cost model\<close>

lemma estimate_loop_sum:
  "estimate_loop cm ts acc = acc + (\<Sum>t\<leftarrow>ts. spec_trade_cost cm t)"
  by (induction ts arbitrary: acc) (simp_all add: spec_trade_cost_def Let_def)

lemma estimate_for_rebalance_sum:
  "estimate_for_rebalance cm ts = (\<Sum>t\<leftarrow>ts. spec_trade_cost cm t)"
  by (simp add: estimate_for_rebalance_def estimate_loop_sum)

lemma spec_trade_cost_nonneg:
  assumes "0 \<le> commission_rate cm" and "0 \<le> min_commission cm"
    and "0 \<le> stamp_tax_rate cm" and "0 \<le> slippage_bps cm"
    and "0 \<le> sell_value t"
  shows "0 \<le> spec_trade_cost cm t"
  using assms by (simp add: spec_trade_cost_def)

lemma spec_trade_cost_mono:
  assumes rates: "0 \<le> commission_rate cm" "0 \<le> min_commission cm"
      "0 \<le> stamp_tax_rate cm" "0 \<le> slippage_bps cm"
    and sv: "0 \<le> sell_value t'" "sell_value t \<le> sell_value t'"
    and tv: "trade_value t \<le> trade_value t'"
  shows "spec_trade_cost cm t \<le> spec_trade_cost cm t'"
proof (cases "trade_value t > 0")
  case False
  then have "spec_trade_cost cm t = 0"
    by (simp add: spec_trade_cost_def)
  with rates sv(1) show ?thesis
    by (simp add: spec_trade_cost_nonneg)
next
  case True
  with tv have pos: "trade_value t' > 0" by simp
  have c: "max (trade_value t * commission_rate cm) (min_commission cm)
      \<le> max (trade_value t' * commission_rate cm) (min_commission cm)"
    using tv rates(1) by (simp add: max.coboundedI1 mult_right_mono)
  have s: "sell_value t * stamp_tax_rate cm \<le> sell_value t' * stamp_tax_rate cm"
    using sv(2) rates(3) by (simp add: mult_right_mono)
  have l: "trade_value t * slippage_bps cm / 10000 \<le> trade_value t' * slippage_bps cm / 10000"
    using tv rates(4) by (simp add: mult_right_mono divide_right_mono)
  from True pos c s l show ?thesis
    by (simp add: spec_trade_cost_def)
qed

text \<open>
  Claim C8, as stated, fails for rates that are not all non-negative: with a negative
  \<open>slippage_bps\<close> a larger \<open>trade_value\<close> gives a smaller estimate.
\<close>

theorem estimate_monotone_counterexample:
  "estimate_for_rebalance
     \<lparr>commission_rate = 0, min_commission = 0, stamp_tax_rate = 0, slippage_bps = - 5\<rparr>
     [\<lparr>trade_symbol = ''A'', trade_value = 10000, sell_value = 0\<rparr>]
   < estimate_for_rebalance
     \<lparr>commission_rate = 0, min_commission = 0, stamp_tax_rate = 0, slippage_bps = - 5\<rparr>
     [\<lparr>trade_symbol = ''A'', trade_value = 0, sell_value = 0\<rparr>]"
  by (simp add: estimate_for_rebalance_def)

text \<open>
  Claim C8, amended. The estimate of the empty trade list is \<open>0\<close>; the estimate is the sum
  over the trades of the per-trade cost (nothing for \<open>trade_value \<le> 0\<close>, otherwise
  commission with its minimum, plus stamp tax, plus slippage); and for non-negative
  \<open>commission_rate\<close>, \<open>min_commission\<close>, \<open>stamp_tax_rate\<close> and \<open>slippage_bps\<close> the
  total does not decrease when one trade's \<open>trade_value\<close> is raised, its \<open>sell_value\<close>
  staying non-negative and not being lowered.
\<close>

theorem estimate_monotone:
  assumes "0 \<le> commission_rate cm" and "0 \<le> min_commission cm"
    and "0 \<le> stamp_tax_rate cm" and "0 \<le> slippage_bps cm"
    and "0 \<le> sell_value t'" and "sell_value t \<le> sell_value t'"
    and "trade_value t \<le> trade_value t'"
  shows "estimate_for_rebalance cm [] = 0
    \<and> estimate_for_rebalance cm ts = (\<Sum>u\<leftarrow>ts. spec_trade_cost cm u)
    \<and> estimate_for_rebalance cm (xs @ t # ys) \<le> estimate_for_rebalance cm (xs @ t' # ys)"
proof -
  have "spec_trade_cost cm t \<le> spec_trade_cost cm t'"
    using assms by (rule spec_trade_cost_mono)
  then show ?thesis
    by (simp add: estimate_for_rebalance_sum)
qed

theorem estimate_monotone_witness:
  "estimate_for_rebalance
     \<lparr>commission_rate = 1/1000, min_commission = 5, stamp_tax_rate = 0, slippage_bps = 5\<rparr>
     [\<lparr>trade_symbol = ''A'', trade_value = 1000, sell_value = 0\<rparr>]
   \<le> estimate_for_rebalance
     \<lparr>commission_rate = 1/1000, min_commission = 5, stamp_tax_rate = 0, slippage_bps = 5\<rparr>
     [\<lparr>trade_symbol = ''A'', trade_value = 10000, sell_value = 0\<rparr>]
   \<and> estimate_for_rebalance
     \<lparr>commission_rate = 1/1000, min_commission = 5, stamp_tax_rate = 0, slippage_bps = 5\<rparr>
     [\<lparr>trade_symbol = ''A'', trade_value = 10000, sell_value = 0\<rparr>] = 15"
  using estimate_monotone
    [of "\<lparr>commission_rate = 1/1000, min_commission = 5, stamp_tax_rate = 0, slippage_bps = 5\<rparr>"
        "\<lparr>trade_symbol = ''A'', trade_value = 10000, sell_value = 0\<rparr>"
        "\<lparr>trade_symbol = ''A'', trade_value = 1000, sell_value = 0\<rparr>" "[]" "[]" "[]"]
  by (simp add: estimate_for_rebalance_def)

section \<open>The weekly flag and the signal-date lookup\<close>

lemma length_first_day_after_week_end:
  "length (first_day_after_week_end dates) = length dates"
  by (simp add: first_day_after_week_end_def period_shift_def Let_def)

lemma first_day_after_week_end_0:
  "dates \<noteq> [] \<Longrightarrow> first_day_after_week_end dates ! 0 = False"
  by (simp add: first_day_after_week_end_def period_shift_def Let_def)

lemma get_loc_nth:
  "distinct xs \<Longrightarrow> i < length xs \<Longrightarrow> get_loc xs (xs ! i) = Inr i"
proof (induction xs arbitrary: i)
  case Nil
  then show ?case by simp
next
  case (Cons x xs)
  show ?case
  proof (cases i)
    case 0
    then show ?thesis by simp
  next
    case (Suc j)
    with Cons.prems have "j < length xs" and "distinct xs" and "xs ! j \<noteq> x"
      by auto
    with Cons.IH [of j] Suc show ?thesis by auto
  qed
qed

lemma mask_select_nth:
  assumes "d \<in> set (mask_select xs flags)"
  shows "\<exists>i. i < length xs \<and> i < length flags \<and> xs ! i = d \<and> flags ! i"
proof -
  from assms obtain b where "(d, b) \<in> set (filter snd (zip xs flags))"
    by (auto simp add: mask_select_def)
  then have "(d, True) \<in> set (zip xs flags)" by auto
  then show ?thesis
    by (auto simp add: in_set_zip)
qed

text \<open>
  Claim C10. For a non-empty index of (distinct) trading dates the flag is \<open>False\<close> at
  the first date; so a flagged position is at least \<open>1\<close> (the backtest's \<open>idx[i - 1]\<close>),
  and for every flagged date \<open>get_loc\<close> returns a position \<open>i \<ge> 1\<close>, so that the paper
  driver's \<open>idx[get_loc(trade_dt) - 1]\<close> reads the element just before it and neither
  raises nor wraps around to the end of the index.
\<close>

theorem rebalance_date_has_predecessor:
  assumes "dates \<noteq> []" and "distinct dates"
  shows "first_day_after_week_end dates ! 0 = False
    \<and> (\<forall>i < length dates. first_day_after_week_end dates ! i \<longrightarrow> 1 \<le> i)
    \<and> (\<forall>d \<in> set (mask_select dates (first_day_after_week_end dates)).
         \<exists>i. get_loc dates d = Inr i \<and> 1 \<le> i \<and> i < length dates
           \<and> py_index dates (int i - 1) = Inr (dates ! (i - 1)))"
proof -
  have first: "first_day_after_week_end dates ! 0 = False"
    using assms(1) by (rule first_day_after_week_end_0)
  have flagged: "1 \<le> i" if "first_day_after_week_end dates ! i" for i
  proof (cases i)
    case 0
    with that first show ?thesis by simp
  next
    case (Suc j)
    then show ?thesis by simp
  qed
  have lookup: "\<exists>i. get_loc dates d = Inr i \<and> 1 \<le> i \<and> i < length dates
      \<and> py_index dates (int i - 1) = Inr (dates ! (i - 1))"
    if d: "d \<in> set (mask_select dates (first_day_after_week_end dates))" for d
  proof -
    from mask_select_nth [OF d] obtain i where i: "i < length dates" "dates ! i = d"
        "first_day_after_week_end dates ! i"
      by (elim exE conjE)
    from flagged [OF i(3)] have pos: "1 \<le> i" .
    from get_loc_nth [OF assms(2) i(1)] i(2) have loc_i: "get_loc dates d = Inr i"
      by simp
    from pos i(1) have "py_index dates (int i - 1) = Inr (dates ! (i - 1))"
      by (simp add: py_index_def nat_diff_distrib')
    with loc_i pos i(1) show ?thesis
      by (intro exI [of _ i] conjI)
  qed
  from first flagged lookup show ?thesis
    by (intro conjI allI impI ballI)
qed

theorem rebalance_date_has_predecessor_witness:
  "first_day_after_week_end [4, 5, 8, 11] = [False, True, True, True]
    \<and> mask_select [4, 5, 8, 11] (first_day_after_week_end [4, 5, 8, 11]) = [5, 8, 11]
    \<and> get_loc [4, 5, 8, 11] 5 = Inr 1
    \<and> py_index [4, 5, 8, 11 :: int] (int 1 - 1) = Inr 4"
  using rebalance_date_has_predecessor [of "[4, 5, 8, 11]"]
  by (simp add: first_day_after_week_end_def period_shift_def to_period_W_FRI_def
      mask_select_def py_index_def)

section \<open>The paper-trading driver: outcome and account state\<close>

lemma paper_advance_InrE:
  assumes "paper_advance args prices cs stored = Inr r"
  obtains trade_dt signal_dt account1 account2 g tw px_trade st where
    "backfill_history prices signal_dt (load_account args stored) = Inr account1"
    "decide_weights args prices cs signal_dt account1 = Inr (account2, g, tw)"
    "res_account r = settle_account account2 g trade_dt px_trade st"
  using assms unfolding paper_advance_def Let_def
  by (auto split: if_splits sum.splits prod.splits)

lemma backfill_loop_fields:
  "backfill_loop prices ex ds a = Inr a' \<Longrightarrow>
     as_of a' = as_of a \<and> cash a' = cash a \<and> positions a' = positions a \<and> gate a' = gate a
       \<and> equity_peak a \<le> equity_peak a'"
proof (induction ds arbitrary: a)
  case Nil
  then show ?case by simp
next
  case (Cons d ds)
  show ?case
  proof (cases "d \<in> set ex")
    case True
    with Cons show ?thesis by simp
  next
    case False
    with Cons.prems obtain row where row: "loc prices d = Inr row"
      and rest: "backfill_loop prices ex ds
          (a\<lparr>history := history a @ [(d, account_value a row)],
             equity_peak := max (equity_peak a) (account_value a row)\<rparr>) = Inr a'"
      by (auto simp add: Let_def split: sum.splits)
    from Cons.IH [OF rest] show ?thesis by simp
  qed
qed

lemma backfill_history_fields:
  "backfill_history prices signal_dt a = Inr a' \<Longrightarrow>
     as_of a' = as_of a \<and> cash a' = cash a \<and> positions a' = positions a \<and> gate a' = gate a
       \<and> equity_peak a \<le> equity_peak a'"
  unfolding backfill_history_def Let_def
  by (cases "as_of a") (auto dest: backfill_loop_fields)

lemma decide_weights_fields:
  "decide_weights args prices cs signal_dt a = Inr (a', g, tw) \<Longrightarrow>
     as_of a' = as_of a \<and> cash a' = cash a \<and> positions a' = positions a
       \<and> equity_peak a \<le> equity_peak a'"
  unfolding decide_weights_def Let_def
  by (auto split: sum.splits list.splits)

lemma settle_account_peak:
  "equity_peak a \<le> equity_peak (settle_account a g d px st)"
  by (simp add: settle_account_def Let_def)

lemma paper_advance_peak:
  assumes "paper_advance args prices cs stored = Inr r"
  shows "equity_peak (load_account args stored) \<le> equity_peak (res_account r)"
proof -
  from assms obtain trade_dt signal_dt account1 account2 g tw px_trade st where
    b: "backfill_history prices signal_dt (load_account args stored) = Inr account1"
    and d: "decide_weights args prices cs signal_dt account1 = Inr (account2, g, tw)"
    and r: "res_account r = settle_account account2 g trade_dt px_trade st"
    by (rule paper_advance_InrE)
  from backfill_history_fields [OF b] decide_weights_fields [OF d]
    settle_account_peak [of account2 g trade_dt px_trade st] r
  show ?thesis by simp
qed

lemma run_paper_once_peak:
  "equity_peak (load_account args stored)
     \<le> equity_peak (load_account args (snd (run_paper_once args prices cs stored)))"
proof (cases "paper_advance args prices cs stored")
  case (Inl e)
  then show ?thesis by (simp add: run_paper_once_def)
next
  case (Inr r)
  from paper_advance_peak [OF Inr] Inr show ?thesis
    by (simp add: run_paper_once_def load_account_def)
qed

text \<open>
  Claim C1, as stated, fails: when no rebalance date lies strictly after \<open>as_of\<close>, the
  driver does not return an outcome, it raises \<^verbatim>\<open>RuntimeError\<close> (here: the table has
  the rebalance date 5 and the account was last processed on day 5).
\<close>

theorem nothing_to_do_counterexample:
  "run_paper_once
     \<lparr>equity_etfs = [''A''], defensive_etf = ''D'', initial_capital = 1000,
      no_trade_band = 0, cfg_derisk_drawdown = 1/10, cfg_circuit_drawdown = 1/5,
      cfg_cooldown_weeks = 4, alloc_normal_equity_weight = 1,
      alloc_derisk_equity_weight = 1/2,
      cost_model = \<lparr>commission_rate = 0, min_commission = 0, stamp_tax_rate = 0,
                     slippage_bps = 0\<rparr>\<rparr>
     [(4, [(''A'', 1), (''D'', 1)]), (5, [(''A'', 1), (''D'', 1)])]
     (\<lambda>d. [(''A'', Some 1)])
     (Some \<lparr>as_of = Some 5, cash = 0, positions = [(''A'', 1000)], equity_peak = 1000,
            gate = (NORMAL, 0), history = [(5, 1000)]\<rparr>)
   = (Inl RuntimeError_account_up_to_date,
      Some \<lparr>as_of = Some 5, cash = 0, positions = [(''A'', 1000)], equity_peak = 1000,
            gate = (NORMAL, 0), history = [(5, 1000)]\<rparr>)"
  by (simp add: run_paper_once_def paper_advance_def mask_select_def
      first_day_after_week_end_def period_shift_def to_period_W_FRI_def load_account_def
      next_rebalance_def Let_def)

text \<open>
  Claim C1, amended. When the price table has rebalance dates but none lies strictly
  after the stored account's \<open>as_of\<close>, \<^verbatim>\<open>run_paper_once\<close> raises the \<^verbatim>\<open>RuntimeError\<close>
  "no next rebalance date, the account is up to date" (not the one for a table without
  any rebalance date) and the stored account is unchanged; the web task runner
  \<^verbatim>\<open>_task_run_paper\<close> catches exactly this error and returns normally with the output
  "no update needed", the stored account again unchanged.
\<close>

theorem nothing_to_do_outcome:
  assumes "mask_select (map fst prices) (first_day_after_week_end (map fst prices)) \<noteq> []"
    and "stored = Some account" and "as_of account = Some last_dt"
    and "\<forall>d \<in> set (mask_select (map fst prices) (first_day_after_week_end (map fst prices))).
           \<not> d > last_dt"
  shows "run_paper_once args prices cs stored = (Inl RuntimeError_account_up_to_date, stored)
    \<and> task_run_paper args prices cs stored = (Inr Outputs_no_update_needed, stored)"
proof -
  from assms(4) have
    "filter (\<lambda>d. d > last_dt)
       (mask_select (map fst prices) (first_day_after_week_end (map fst prices))) = []"
    by (simp add: filter_empty_conv)
  with assms(2,3) have
    "next_rebalance (map fst prices)
       (mask_select (map fst prices) (first_day_after_week_end (map fst prices)))
       (load_account args stored) = Inl RuntimeError_account_up_to_date"
    by (simp add: next_rebalance_def load_account_def)
  with assms(1) have "paper_advance args prices cs stored = Inl RuntimeError_account_up_to_date"
    by (simp add: paper_advance_def Let_def)
  then show ?thesis
    by (simp add: run_paper_once_def task_run_paper_def)
qed

theorem nothing_to_do_outcome_witness:
  "task_run_paper
     \<lparr>equity_etfs = [''A''], defensive_etf = ''D'', initial_capital = 1000,
      no_trade_band = 0, cfg_derisk_drawdown = 1/10, cfg_circuit_drawdown = 1/5,
      cfg_cooldown_weeks = 4, alloc_normal_equity_weight = 1,
      alloc_derisk_equity_weight = 1/2,
      cost_model = \<lparr>commission_rate = 0, min_commission = 0, stamp_tax_rate = 0,
                     slippage_bps = 0\<rparr>\<rparr>
     [(4, [(''A'', 1), (''D'', 1)]), (5, [(''A'', 1), (''D'', 1)])]
     (\<lambda>d. [(''A'', Some 1)])
     (Some \<lparr>as_of = Some 5, cash = 0, positions = [(''A'', 1000)], equity_peak = 1000,
            gate = (NORMAL, 0), history = [(5, 1000)]\<rparr>)
   = (Inr Outputs_no_update_needed,
      Some \<lparr>as_of = Some 5, cash = 0, positions = [(''A'', 1000)], equity_peak = 1000,
            gate = (NORMAL, 0), history = [(5, 1000)]\<rparr>)"
  using nothing_to_do_outcome
    [of "[(4, [(''A'', 1), (''D'', 1)]), (5, [(''A'', 1), (''D'', 1)])]"
        "Some \<lparr>as_of = Some 5, cash = 0, positions = [(''A'', 1000)], equity_peak = 1000,
               gate = (NORMAL, 0), history = [(5, 1000)]\<rparr>"
        "\<lparr>as_of = Some 5, cash = 0, positions = [(''A'', 1000)], equity_peak = 1000,
          gate = (NORMAL, 0), history = [(5, 1000)]\<rparr>" 5]
  by (simp add: mask_select_def first_day_after_week_end_def period_shift_def
      to_period_W_FRI_def)

text \<open>
  Claim C9. The peak of the account an invocation starts from (the stored account, or
  the fresh one when none is stored) is never above the peak of the account that
  successive invocations of the driver leave behind: the backfill, the signal-date
  valuation and the post-trade valuation each replace the peak by the maximum of the
  peak and a valuation, and a failed invocation stores nothing.
\<close>

theorem equity_peak_never_decreases:
  "equity_peak (load_account args stored)
     \<le> equity_peak (load_account args (run_paper_many args inputs stored))"
proof (induction inputs arbitrary: stored)
  case Nil
  show ?case by simp
next
  case (Cons inp inputs)
  obtain prices cs where inp: "inp = (prices, cs)" by (cases inp)
  have "equity_peak (load_account args stored)
      \<le> equity_peak (load_account args (snd (run_paper_once args prices cs stored)))"
    by (rule run_paper_once_peak)
  also have "\<dots> \<le> equity_peak (load_account args
      (run_paper_many args inputs (snd (run_paper_once args prices cs stored))))"
    by (rule Cons.IH)
  finally show ?case by (simp add: inp)
qed


theorem equity_peak_never_decreases_witness:
  "equity_peak
     (load_account
        \<lparr>equity_etfs = [''A''], defensive_etf = ''D'', initial_capital = 1000,
         no_trade_band = 0, cfg_derisk_drawdown = 1/10, cfg_circuit_drawdown = 1/5,
         cfg_cooldown_weeks = 4, alloc_normal_equity_weight = 1,
         alloc_derisk_equity_weight = 1/2,
         cost_model = \<lparr>commission_rate = 0, min_commission = 0, stamp_tax_rate = 0,
                        slippage_bps = 0\<rparr>\<rparr>
        (Some \<lparr>as_of = Some 3, cash = 0, positions = [(''A'', 1)], equity_peak = 1,
               gate = (NORMAL, 0), history = []\<rparr>))
   \<le> equity_peak
     (load_account
        \<lparr>equity_etfs = [''A''], defensive_etf = ''D'', initial_capital = 1000,
         no_trade_band = 0, cfg_derisk_drawdown = 1/10, cfg_circuit_drawdown = 1/5,
         cfg_cooldown_weeks = 4, alloc_normal_equity_weight = 1,
         alloc_derisk_equity_weight = 1/2,
         cost_model = \<lparr>commission_rate = 0, min_commission = 0, stamp_tax_rate = 0,
                        slippage_bps = 0\<rparr>\<rparr>
        (run_paper_many
           \<lparr>equity_etfs = [''A''], defensive_etf = ''D'', initial_capital = 1000,
            no_trade_band = 0, cfg_derisk_drawdown = 1/10, cfg_circuit_drawdown = 1/5,
            cfg_cooldown_weeks = 4, alloc_normal_equity_weight = 1,
            alloc_derisk_equity_weight = 1/2,
            cost_model = \<lparr>commission_rate = 0, min_commission = 0, stamp_tax_rate = 0,
                           slippage_bps = 0\<rparr>\<rparr>
           [([(4, [(''A'', 2), (''D'', 1)]), (5, [(''A'', 3), (''D'', 1)])],
             \<lambda>d. [(''A'', Some 1)])]
           (Some \<lparr>as_of = Some 3, cash = 0, positions = [(''A'', 1)], equity_peak = 1,
                  gate = (NORMAL, 0), history = []\<rparr>)))"
  by (rule equity_peak_never_decreases)

section \<open>The paper-trading driver: what an advance stores and records\<close>

lemmas eval_defs = run_paper_once_def paper_advance_def mask_select_def
  first_day_after_week_end_def period_shift_def to_period_W_FRI_def load_account_def
  next_rebalance_def py_index_def backfill_history_def loc_def account_value_def
  decide_weights_def on_rebalance_def next_state_def pick_best_equity_def target_weights_def
  size_targets_def dict_fromkeys_def pre_trade_value_def apply_no_trade_band_def dict_get_def
  execute_trades_def sell_symbol_def buy_order_def buy_symbol_def buy_while.simps
  est_cost_for_def estimate_for_rebalance_def settle_account_def blotter_rows_def Let_def

lemma floor_minus_one_real:
  "\<lfloor>- 1 :: real\<rfloor> = - 1"
  using floor_of_int [of "- 1", where ?'a = real] by simp

text \<open>
  Claim C7. The claim is right about the two loops and the code does not record what it
  says. The account holds 10 shares of the defensive symbol D (price 1) and no cash; the
  winner A costs 2 and the minimum commission is 5. The sale of D is executed first and
  leaves cash 5; the buy of A starts at the full delta 5 and is reduced to 0, since even one
  share needs 2 + 5; nothing raises, and the loop appends the row
  \<open>(A, HOLD, 0, 0, 0, 2, 0)\<close> to the local list \<^verbatim>\<open>trades\<close>. That list is never read
  again. The blotter that is written and returned is computed afresh (lines 266 to 290):
  A has no entry in the cleaned positions, so its \<^verbatim>\<open>target_shares\<close> falls back to the
  uncut target 5, and the row reports action \<^verbatim>\<open>BUY\<close> with \<^verbatim>\<open>delta_shares\<close> 5 and cost 0,
  although no share of A was bought (the stored positions are empty). The comments at
  lines 264 and 269 say that the blotter has the \<^verbatim>\<open>HOLD\<close> rows and takes the target from
  the holdings after execution.
\<close>

theorem unfunded_buy_recorded_as_buy:
  "run_paper_once
     \<lparr>equity_etfs = [''A''], defensive_etf = ''D'', initial_capital = 1000,
      no_trade_band = 0, cfg_derisk_drawdown = 1/10, cfg_circuit_drawdown = 1/5,
      cfg_cooldown_weeks = 4, alloc_normal_equity_weight = 1,
      alloc_derisk_equity_weight = 1/2,
      cost_model = \<lparr>commission_rate = 1/1000, min_commission = 5, stamp_tax_rate = 0,
                     slippage_bps = 0\<rparr>\<rparr>
     [(4, [(''A'', 2), (''D'', 1)]), (5, [(''A'', 2), (''D'', 1)])]
     (\<lambda>d. [(''A'', Some 1)])
     (Some \<lparr>as_of = Some 3, cash = 0, positions = [(''D'', 10)], equity_peak = 10,
            gate = (NORMAL, 0), history = []\<rparr>)
   = (Inr \<lparr>res_account =
            \<lparr>as_of = Some 5, cash = 5, positions = [], equity_peak = 10,
             gate = (NORMAL, 0), history = [(4, 10), (5, 5)]\<rparr>,
           res_blotter =
             [\<lparr>row_trade_date = 5, row_signal_date = 4, row_symbol = ''A'',
               row_action = BUY, row_current_weight = 0, row_target_weight = 1,
               row_target_shares = 5, row_delta_shares = 5, row_reference_price = Some 2,
               row_estimated_cost = 0, row_state = NORMAL\<rparr>,
              \<lparr>row_trade_date = 5, row_signal_date = 4, row_symbol = ''D'',
               row_action = SELL, row_current_weight = 1, row_target_weight = 0,
               row_target_shares = 0, row_delta_shares = - 10, row_reference_price = Some 1,
               row_estimated_cost = 5, row_state = NORMAL\<rparr>],
           local_trades = [(''D'', SELL, 10, 0, - 10, 1, 5), (''A'', HOLD, 0, 0, 0, 2, 0)]\<rparr>,
      Some \<lparr>as_of = Some 5, cash = 5, positions = [], equity_peak = 10,
            gate = (NORMAL, 0), history = [(4, 10), (5, 5)]\<rparr>)"
  by (simp add: eval_defs)

text \<open>
  Claim C4. The claim is right and the code breaks it. The buy loop refuses a purchase
  that the cash does not cover, but the sell loop credits \<^verbatim>\<open>sell_value - cost\<close> without
  any test. The account holds 1 in cash and 3 shares of D (price 1); the winner A costs 10
  and the minimum commission is 5. The first invocation sells the 3 shares for 3 at a cost
  of 5 and stores cash \<open>- 1\<close>. The second invocation (one more trading day) starts from a
  negative account value: the gate trips, the target for D is \<open>\<lfloor>- 1 / 1\<rfloor> = - 1\<close>, the sell
  loop sells a share that is not held, and the account stored has cash \<open>- 5\<close> and the
  share count \<open>- 1\<close>. Both invocations complete without an exception.
\<close>

theorem sale_costs_leave_negative_cash_and_shares:
  "snd (run_paper_once
     \<lparr>equity_etfs = [''A''], defensive_etf = ''D'', initial_capital = 1000,
      no_trade_band = 0, cfg_derisk_drawdown = 1/10, cfg_circuit_drawdown = 1/5,
      cfg_cooldown_weeks = 4, alloc_normal_equity_weight = 1,
      alloc_derisk_equity_weight = 1/2,
      cost_model = \<lparr>commission_rate = 3/10000, min_commission = 5, stamp_tax_rate = 0,
                     slippage_bps = 0\<rparr>\<rparr>
     [(4, [(''A'', 10), (''D'', 1)]), (5, [(''A'', 10), (''D'', 1)])]
     (\<lambda>d. [(''A'', Some 1)])
     (Some \<lparr>as_of = Some 3, cash = 1, positions = [(''D'', 3)], equity_peak = 4,
            gate = (NORMAL, 0), history = []\<rparr>))
   = Some \<lparr>as_of = Some 5, cash = - 1, positions = [], equity_peak = 4,
           gate = (NORMAL, 0), history = [(4, 4), (5, - 1)]\<rparr>
   \<and> run_paper_many
     \<lparr>equity_etfs = [''A''], defensive_etf = ''D'', initial_capital = 1000,
      no_trade_band = 0, cfg_derisk_drawdown = 1/10, cfg_circuit_drawdown = 1/5,
      cfg_cooldown_weeks = 4, alloc_normal_equity_weight = 1,
      alloc_derisk_equity_weight = 1/2,
      cost_model = \<lparr>commission_rate = 3/10000, min_commission = 5, stamp_tax_rate = 0,
                     slippage_bps = 0\<rparr>\<rparr>
     [([(4, [(''A'', 10), (''D'', 1)]), (5, [(''A'', 10), (''D'', 1)])],
       \<lambda>d. [(''A'', Some 1)]),
      ([(4, [(''A'', 10), (''D'', 1)]), (5, [(''A'', 10), (''D'', 1)]),
        (6, [(''A'', 10), (''D'', 1)])],
       \<lambda>d. [(''A'', Some 1)])]
     (Some \<lparr>as_of = Some 3, cash = 1, positions = [(''D'', 3)], equity_peak = 4,
            gate = (NORMAL, 0), history = []\<rparr>)
   = Some \<lparr>as_of = Some 6, cash = - 5, positions = [(''D'', - 1)], equity_peak = 4,
           gate = (CIRCUIT_COOLDOWN, 3), history = [(4, 4), (5, - 1), (6, - 6)]\<rparr>"
  by (simp add: eval_defs floor_minus_one_real)

end
